theory Spec2Isabelle
  imports Main "HOL-Library.Sublist"
begin

section \<open>Python values, exceptions and string primitives\<close>

text \<open>
  The assistant is a Python program. Exceptions are values of \<open>error\<close>; a computation
  that may raise returns \<open>error + 'a\<close> with \<open>Inl\<close> for the exception. Strings are
  \<open>char list\<close>; a \<open>char\<close> stands for the code point of the same number, so the
  model covers the text whose code points are below 256, and the string methods
  behave on it as Python's do on those code points.
\<close>

datatype error = TypeError | NameError | KeyError | IndexError | AttributeError | OSError

text \<open>An argument of \<open>process_command\<close>: a \<open>str\<close>, or any other Python object.\<close>

datatype pyobj = Str string | NonStr

text \<open>
  \<open>str.lower\<close> on one character: the letters A to Z and the capital letters 0xC0
  to 0xDE without the multiplication sign 0xD7 move up by 32; no other code point
  below 256 changes.
\<close>

definition lower_char :: "char \<Rightarrow> char" where
  "lower_char c =
     (case map_of
             (zip (''ABCDEFGHIJKLMNOPQRSTUVWXYZ'' @
                   [CHR 0xC0, CHR 0xC1, CHR 0xC2, CHR 0xC3, CHR 0xC4, CHR 0xC5, CHR 0xC6, CHR 0xC7,
                    CHR 0xC8, CHR 0xC9, CHR 0xCA, CHR 0xCB, CHR 0xCC, CHR 0xCD, CHR 0xCE, CHR 0xCF,
                    CHR 0xD0, CHR 0xD1, CHR 0xD2, CHR 0xD3, CHR 0xD4, CHR 0xD5, CHR 0xD6, CHR 0xD8,
                    CHR 0xD9, CHR 0xDA, CHR 0xDB, CHR 0xDC, CHR 0xDD, CHR 0xDE])
                  (''abcdefghijklmnopqrstuvwxyz'' @
                   [CHR 0xE0, CHR 0xE1, CHR 0xE2, CHR 0xE3, CHR 0xE4, CHR 0xE5, CHR 0xE6, CHR 0xE7,
                    CHR 0xE8, CHR 0xE9, CHR 0xEA, CHR 0xEB, CHR 0xEC, CHR 0xED, CHR 0xEE, CHR 0xEF,
                    CHR 0xF0, CHR 0xF1, CHR 0xF2, CHR 0xF3, CHR 0xF4, CHR 0xF5, CHR 0xF6, CHR 0xF8,
                    CHR 0xF9, CHR 0xFA, CHR 0xFB, CHR 0xFC, CHR 0xFD, CHR 0xFE])) c of
        Some l \<Rightarrow> l
      | None \<Rightarrow> c)"

definition lower :: "string \<Rightarrow> string" where
  "lower s = map lower_char s"

text \<open>
  The characters \<open>str.strip()\<close> and \<open>str.split()\<close> treat as white space: tab, line
  feed, vertical tab, form feed, carriage return, the separators 0x1C to 0x1F, space,
  next line (0x85) and the no-break space (0xA0).
\<close>

definition is_space :: "char \<Rightarrow> bool" where
  "is_space c =
     (of_char c \<in> set [9, 10, 11, 12, 13, 28, 29, 30, 31, 32, 133, 160 :: nat])"

definition strip :: "string \<Rightarrow> string" where
  "strip s = rev (dropWhile is_space (rev (dropWhile is_space s)))"

text \<open>\<open>sub in s\<close>: \<open>sub\<close> occurs in \<open>s\<close> as a contiguous substring.\<close>

fun contains :: "string \<Rightarrow> string \<Rightarrow> bool" where
  "contains sub [] = (sub = [])"
| "contains sub (c # cs) = (prefix sub (c # cs) \<or> contains sub cs)"

text \<open>
  \<open>s.replace(old, "")\<close>: every non-overlapping occurrence of \<open>old\<close>, found from the
  left, is removed. The counter is the number of characters of the current occurrence
  that are still to be skipped.
\<close>

fun remove_from :: "string \<Rightarrow> nat \<Rightarrow> string \<Rightarrow> string" where
  "remove_from old k [] = []"
| "remove_from old (Suc k) (c # cs) = remove_from old k cs"
| "remove_from old 0 (c # cs) =
     (if old \<noteq> [] \<and> prefix old (c # cs) then remove_from old (length old - 1) cs
      else c # remove_from old 0 cs)"

definition remove_all :: "string \<Rightarrow> string \<Rightarrow> string" where
  "remove_all old s = remove_from old 0 s"

text \<open>\<open>s.split('\n')\<close>: the pieces between line feeds; always at least one piece.\<close>

fun split_lines :: "string \<Rightarrow> string list" where
  "split_lines [] = [[]]"
| "split_lines (c # cs) =
     (if c = CHR 0x0A then [] # split_lines cs
      else (case split_lines cs of
              [] \<Rightarrow> [[c]]
            | l # ls \<Rightarrow> (c # l) # ls))"

text \<open>\<open>s.split()\<close>: the maximal runs of characters that are not white space.\<close>

fun split_ws :: "string \<Rightarrow> string list" where
  "split_ws [] = []"
| "split_ws (c # cs) =
     (if is_space c then split_ws cs
      else (case cs of
              [] \<Rightarrow> [[c]]
            | d # ds \<Rightarrow>
                (if is_space d then [c] # split_ws cs
                 else (case split_ws cs of
                         [] \<Rightarrow> [[c]]
                       | w # ws \<Rightarrow> (c # w) # ws))))"

text \<open>\<open>xs[i]\<close> for a non-negative literal index: \<open>IndexError\<close> out of range.\<close>

definition item :: "'a list \<Rightarrow> nat \<Rightarrow> error + 'a" where
  "item xs i = (if i < length xs then Inr (xs ! i) else Inl IndexError)"

text \<open>The decimal numeral of a natural number, as an f-string prints it.\<close>

definition digit_char :: "nat \<Rightarrow> char" where
  "digit_char d = ''0123456789'' ! d"

fun decimal_fuel :: "nat \<Rightarrow> nat \<Rightarrow> string" where
  "decimal_fuel 0 n = [digit_char (n mod 10)]"
| "decimal_fuel (Suc f) n =
     (if n < 10 then [digit_char n] else decimal_fuel f (n div 10) @ [digit_char (n mod 10)])"

definition decimal :: "nat \<Rightarrow> string" where
  "decimal n = decimal_fuel n n"


section \<open>Conversation state\<close>

text \<open>
  A conversation turn is the dictionary \<open>{'text', 'speaker', 'timestamp'}\<close> that
  \<open>update_conversation_history\<close> appends (\<open>turn_text\<close> is its \<open>'text'\<close>).
\<close>

record turn =
  turn_text :: string
  speaker :: string
  timestamp :: string

text \<open>The value of \<open>sentiment_analyzer\<close> once it is not \<open>None\<close>.\<close>

datatype analyzer = Fallback | Pipeline

text \<open>
  The attributes of a \<open>VirtualAssistant\<close> that \<open>process_command\<close> and \<open>run\<close> read
  or write. An attribute that \<open>__init__\<close> assigns only when a dependency is present
  (\<open>weather\<close>, \<open>news\<close>, \<open>screenshot\<close>, \<open>wiki\<close>) is a flag: whether \<open>hasattr\<close> holds.
  \<open>pu_system\<close> and \<open>app_cache\<close> are the fields of the \<open>PlatformUtils\<close> instance.
\<close>

record assistant =
  missing_deps :: "string list"
  config_name :: string
  browser_attr :: bool
  system_attr :: bool
  platform_utils_attr :: bool
  weather_attr :: bool
  news_attr :: bool
  location_attr :: bool
  wiki_attr :: bool
  screenshot_attr :: bool
  pu_system :: string
  app_cache :: "string \<rightharpoonup> string"
  conversation_history :: "turn list"
  max_history_length :: int
  NLP_AVAILABLE :: bool
  sentiment_analyzer :: "analyzer option"
  intent_classifier :: "analyzer option"

text \<open>
  \<open>update_conversation_history\<close>: append the turn, then drop the oldest one when the
  list has grown beyond \<open>max_history_length\<close>. The time stamp is the clock reading
  taken at the call.
\<close>

definition update_conversation_history ::
    "assistant \<Rightarrow> string \<Rightarrow> string \<Rightarrow> string \<Rightarrow> assistant" where
  "update_conversation_history st txt spk now =
     (let h = conversation_history st @ [\<lparr>turn_text = txt, speaker = spk, timestamp = now\<rparr>]
      in st\<lparr>conversation_history :=
               (if int (length h) > max_history_length st then tl h else h)\<rparr>)"

text \<open>A sequence of appends, in order: (text, speaker, time stamp) each.\<close>

fun append_turns :: "assistant \<Rightarrow> (string \<times> string \<times> string) list \<Rightarrow> assistant" where
  "append_turns st [] = st"
| "append_turns st ((txt, spk, now) # rest) =
     append_turns (update_conversation_history st txt spk now) rest"

definition as_turn :: "string \<times> string \<times> string \<Rightarrow> turn" where
  "as_turn a = \<lparr>turn_text = fst a, speaker = fst (snd a), timestamp = snd (snd a)\<rparr>"

text \<open>The turns of a history that the assistant spoke.\<close>

definition assistant_turns :: "turn list \<Rightarrow> turn list" where
  "assistant_turns h = filter (\<lambda>t. speaker t = ''assistant'') h"

section \<open>External collaborators\<close>

text \<open>
  Everything \<open>process_command\<close> obtains from outside the repository's own code: the
  operating system, the clock, the speech and web providers, the file system. The
  providers of \<open>features/\<close> catch every exception themselves and return a value, so
  they are total functions here; a library call that the repository does not guard is
  taken to return normally, so that every exception of the model is one that the
  repository's own code raises.
\<close>

record env =
  platform_system :: string
  now_iso :: string
  hour :: nat
  time_str :: string
  microphone_ok :: bool
  weather_report :: "string \<Rightarrow> string"
  headlines :: "string list"
  location_dict :: "(string \<times> string) list"
  wiki_summary :: "string \<Rightarrow> string"
  screenshot_path :: string
  pipeline_loads :: bool
  pipeline_label :: "string \<Rightarrow> error + string"
  random_pick :: nat
  registry_tokens :: "string list option"
  say_run :: "error + string"
  espeak_run :: "error + string"
  home :: string
  clock :: "nat \<Rightarrow> int"
  scan_directory :: "string \<Rightarrow> int \<Rightarrow> (string \<rightharpoonup> string) \<Rightarrow> (string \<rightharpoonup> string)"

text \<open>
  What the assistant does to the outside world, in order: a spoken response, or the
  call of a feature action.
\<close>

datatype event =
    Speak string
  | OpenUrl string
  | SearchYoutube string
  | SearchGoogle string
  | OsSystem string
  | OpenApp string
  | GetWeather string
  | GetNews
  | GetLocation
  | WikiSearch string
  | TakeScreenshot

fun is_action :: "event \<Rightarrow> bool" where
  "is_action (Speak t) = False"
| "is_action e = True"

section \<open>SystemManager\<close>

text \<open>
  \<open>shutdown\<close> is declared \<open>@staticmethod\<close> with the parameters
  \<open>(self, confirm=False, require_phrase=True)\<close>. A static method receives no instance,
  so \<open>self\<close> is an ordinary positional parameter without a default. The first argument
  of the model is the value bound to it, \<open>None\<close> when the call supplies none: the call
  then fails with \<open>TypeError\<close> before the body runs. The result is the list of
  \<open>os.system\<close> commands issued and the returned status message.
\<close>

definition shutdown ::
    "unit option \<Rightarrow> bool \<Rightarrow> bool \<Rightarrow> string \<Rightarrow> error + (string list \<times> string)" where
  "shutdown self_arg confirm require_phrase system =
     (case self_arg of
        None \<Rightarrow> Inl TypeError
      | Some u \<Rightarrow>
          (if require_phrase \<and> \<not> confirm then
             Inr ([], ''Please confirm by saying 'confirm shutdown'' @ [CHR 0x27])
           else if system = ''Windows'' then
             Inr ([''shutdown /s /t 60''],
                  ''Shutting down in 60 seconds. To cancel, say 'cancel shutdown'' @ [CHR 0x27])
           else
             Inr ([''sudo shutdown -h +1''],
                  ''Shutting down in 60 seconds. To cancel, use 'sudo shutdown -c'' @ [CHR 0x27])))"

definition cancel_shutdown :: "string \<Rightarrow> string list \<times> string" where
  "cancel_shutdown system =
     (if system = ''Windows'' then ([''shutdown /a''], ''Shutdown canceled'')
      else ([''sudo shutdown -c''], ''Shutdown canceled''))"

definition restart :: "string \<Rightarrow> string list" where
  "restart system =
     (if system = ''Windows'' then [''shutdown /r /t 5''] else [''sudo shutdown -r now''])"

definition sleep :: "string \<Rightarrow> string list" where
  "sleep system =
     (if system = ''Windows'' then [''rundll32.exe powrprof.dll,SetSuspendState 0,1,0'']
      else [''pmset sleepnow''])"

section \<open>PlatformUtils\<close>

subsection \<open>Voices\<close>

definition backslash :: string where
  "backslash = [CHR 0x5C]"

definition voice_tokens_key :: string where
  "voice_tokens_key =
     ''HKEY_LOCAL_MACHINE'' @ backslash @ ''SOFTWARE'' @ backslash @ ''Microsoft'' @ backslash
       @ ''Speech'' @ backslash @ ''Voices'' @ backslash @ ''Tokens'' @ backslash"

text \<open>
  \<open>_get_windows_voices\<close>: \<open>registry_tokens\<close> is \<open>None\<close> when the registry key cannot be
  opened, otherwise the sub-key names that \<open>EnumKey\<close> yields before it raises.
\<close>

definition get_windows_voices :: "env \<Rightarrow> assistant \<Rightarrow> string list" where
  "get_windows_voices e st =
     (if pu_system st \<noteq> ''Windows'' then [[]]
      else
        (let voices = (case registry_tokens e of
                         None \<Rightarrow> []
                       | Some keys \<Rightarrow> map (\<lambda>voice_key. voice_tokens_key @ voice_key) keys)
         in if voices \<noteq> [] then voices
            else [voice_tokens_key @ ''TTS_MS_EN-US_ZIRA_11.0'']))"

text \<open>
  The list comprehension \<open>[line.split()[i] for line in lines if line]\<close>: empty lines
  are skipped, a line with too few fields raises \<open>IndexError\<close>.
\<close>

fun fields_at :: "nat \<Rightarrow> string list \<Rightarrow> error + string list" where
  "fields_at i [] = Inr []"
| "fields_at i (line # lines) =
     (if line = [] then fields_at i lines
      else (case item (split_ws line) i of
              Inl err \<Rightarrow> Inl err
            | Inr v \<Rightarrow>
                (case fields_at i lines of
                   Inl err \<Rightarrow> Inl err
                 | Inr vs \<Rightarrow> Inr (v # vs))))"

text \<open>
  \<open>_get_mac_voices\<close> and \<open>_get_linux_voices\<close>: \<open>say_run\<close> and \<open>espeak_run\<close> are the
  outcome of \<open>subprocess.run\<close>, an exception or the captured standard output. Only an
  exception leads to the built-in one-element catalog.
\<close>

definition get_mac_voices :: "env \<Rightarrow> string list" where
  "get_mac_voices e =
     (case say_run e of
        Inl err \<Rightarrow> [''com.apple.speech.synthesis.voice.samantha'']
      | Inr stdout \<Rightarrow>
          (case fields_at 0 (split_lines stdout) of
             Inl err \<Rightarrow> [''com.apple.speech.synthesis.voice.samantha'']
           | Inr voices \<Rightarrow>
               map (\<lambda>voice. ''com.apple.speech.synthesis.voice.'' @ lower voice) voices))"

definition get_linux_voices :: "env \<Rightarrow> string list" where
  "get_linux_voices e =
     (case espeak_run e of
        Inl err \<Rightarrow> [''default'']
      | Inr stdout \<Rightarrow>
          (case fields_at 2 (tl (split_lines stdout)) of
             Inl err \<Rightarrow> [''default'']
           | Inr voices \<Rightarrow> voices))"

text \<open>
  \<open>get_default_voice\<close>: element 0 of the platform's catalog; the \<open>IndexError\<close> of an
  empty catalog is caught and gives the empty string.
\<close>

definition get_default_voice :: "env \<Rightarrow> assistant \<Rightarrow> string" where
  "get_default_voice e st =
     (case (if pu_system st = ''Windows'' then item (get_windows_voices e st) 0
            else if pu_system st = ''Darwin'' then item (get_mac_voices e) 0
            else item (get_linux_voices e) 0) of
        Inl err \<Rightarrow> []
      | Inr v \<Rightarrow> v)"

subsection \<open>Applications\<close>

text \<open>
  The names bound at module level in \<open>platform_utils.py\<close>: its imports
  (\<open>os\<close>, \<open>platform\<close>, \<open>subprocess\<close>, \<open>logging\<close>, \<open>winreg\<close>, \<open>Path\<close>, \<open>Dict\<close>,
  \<open>Optional\<close>, \<open>List\<close>) and its class. Reading any other global name that is not a
  builtin raises \<open>NameError\<close>.
\<close>

definition platform_utils_globals :: "string list" where
  "platform_utils_globals =
     [''os'', ''platform'', ''subprocess'', ''logging'', ''winreg'', ''Path'',
      ''Dict'', ''Optional'', ''List'', ''PlatformUtils'']"

definition global_name :: "string \<Rightarrow> error + unit" where
  "global_name n = (if n \<in> set platform_utils_globals then Inr () else Inl NameError)"

text \<open>\<open>COMMON_APP_LOCATIONS.get(self.system, [])\<close>; \<open>home\<close> is \<open>Path.home()\<close>.\<close>

definition search_locations :: "env \<Rightarrow> string \<Rightarrow> string list" where
  "search_locations e system =
     (if system = ''Windows'' then
        [''C:/Program Files'', ''C:/Program Files (x86)'', home e @ ''/AppData/Local'',
         home e @ ''/AppData/Local/Programs'', ''C:/Windows/System32'']
      else if system = ''Darwin'' then
        [''/Applications'', home e @ ''/Applications'', ''/System/Applications'']
      else if system = ''Linux'' then
        [''/usr/bin'', ''/usr/local/bin'', ''/opt'', home e @ ''/.local/bin'']
      else [])"

text \<open>
  The loop of \<open>scan_for_applications\<close> over the root locations. \<open>clock e k\<close> is the
  \<open>k\<close>-th reading of \<open>time.time()\<close>; \<open>scan_directory\<close> is \<open>_scan_directory\<close> from depth
  0, which catches its own exceptions and adds to the dictionary.
\<close>

fun scan_locations ::
    "env \<Rightarrow> int \<Rightarrow> int \<Rightarrow> int \<Rightarrow> nat \<Rightarrow> string list \<Rightarrow> (string \<rightharpoonup> string)
       \<Rightarrow> (string \<rightharpoonup> string)" where
  "scan_locations e start_time timeout max_depth k [] paths = paths"
| "scan_locations e start_time timeout max_depth k (location # rest) paths =
     (if clock e k - start_time > timeout then paths
      else scan_locations e start_time timeout max_depth (Suc k) rest
             (scan_directory e location max_depth paths))"

text \<open>
  \<open>scan_for_applications(max_depth, timeout)\<close>: the first statement after the two
  assignments reads the global \<open>time\<close>. The result is the returned dictionary, or the
  exception, and the instance with \<open>app_cache\<close> assigned when the loop has finished.
\<close>

definition scan_for_applications ::
    "env \<Rightarrow> assistant \<Rightarrow> int \<Rightarrow> int \<Rightarrow> (error + (string \<rightharpoonup> string)) \<times> assistant" where
  "scan_for_applications e st max_depth timeout =
     (case global_name ''time'' of
        Inl err \<Rightarrow> (Inl err, st)
      | Inr u \<Rightarrow>
          (let paths = scan_locations e (clock e 0) timeout max_depth 1
                         (search_locations e (pu_system st)) Map.empty
           in (Inr paths, st\<lparr>app_cache := paths\<rparr>)))"

text \<open>\<open>find_application\<close>: the cache first, a scan with the default arguments on a miss.\<close>

definition find_application ::
    "env \<Rightarrow> assistant \<Rightarrow> string \<Rightarrow> (error + string option) \<times> assistant" where
  "find_application e st app_name =
     (case app_cache st (lower app_name) of
        Some path \<Rightarrow> (Inr (Some path), st)
      | None \<Rightarrow>
          (case scan_for_applications e st 3 60 of
             (Inl err, st') \<Rightarrow> (Inl err, st')
           | (Inr paths, st') \<Rightarrow> (Inr (app_cache st' (lower app_name)), st')))"

section \<open>The command dispatcher\<close>

subsection \<open>Statements\<close>

text \<open>
  The state while \<open>process_command\<close> runs: the instance, the events so far, and the
  pending exception. A statement transforms it; once an exception is pending, every
  later statement is skipped, which is how the exception leaves the method.
\<close>

record run_state =
  self :: assistant
  log :: "event list"
  raised :: "error option"

definition emit :: "event \<Rightarrow> run_state \<Rightarrow> run_state" where
  "emit ev rs = (if raised rs = None then rs\<lparr>log := log rs @ [ev]\<rparr> else rs)"

text \<open>\<open>self.speech.speak(text)\<close>.\<close>

definition speak :: "string \<Rightarrow> run_state \<Rightarrow> run_state" where
  "speak t rs = emit (Speak t) rs"

definition raise :: "error \<Rightarrow> run_state \<Rightarrow> run_state" where
  "raise err rs = (if raised rs = None then rs\<lparr>raised := Some err\<rparr> else rs)"

text \<open>Statements one after the other.\<close>

fun block :: "(run_state \<Rightarrow> run_state) list \<Rightarrow> run_state \<Rightarrow> run_state" where
  "block [] rs = rs"
| "block (stmt # stmts) rs = block stmts (stmt rs)"

text \<open>The \<open>os.system\<close> calls a \<open>SystemManager\<close> method has issued.\<close>

definition os_calls :: "string list \<Rightarrow> run_state \<Rightarrow> run_state" where
  "os_calls cmds rs = block (map (\<lambda>c. emit (OsSystem c)) cmds) rs"

subsection \<open>The default responder\<close>

text \<open>\<open>_ensure_nlp_loaded\<close>: both attributes end as the pipeline or as the fallback.\<close>

definition ensure_nlp_loaded :: "env \<Rightarrow> assistant \<Rightarrow> assistant" where
  "ensure_nlp_loaded e st =
     (if \<not> NLP_AVAILABLE st then
        st\<lparr>sentiment_analyzer := Some Fallback, intent_classifier := Some Fallback\<rparr>
      else if sentiment_analyzer st = None then
        (if pipeline_loads e then
           st\<lparr>sentiment_analyzer := Some Pipeline, intent_classifier := Some Pipeline\<rparr>
         else
           st\<lparr>sentiment_analyzer := Some Fallback, intent_classifier := Some Fallback\<rparr>)
      else st)"

text \<open>
  \<open>analyze_sentiment\<close>: the label of the first result; any exception of the analyzer
  is caught and gives \<open>NEUTRAL\<close>.
\<close>

definition analyze_sentiment :: "env \<Rightarrow> assistant \<Rightarrow> string \<Rightarrow> string \<times> assistant" where
  "analyze_sentiment e st txt =
     (let st' = ensure_nlp_loaded e st in
      (case sentiment_analyzer st' of
         None \<Rightarrow> (''NEUTRAL'', st')
       | Some Fallback \<Rightarrow> (''NEUTRAL'', st')
       | Some Pipeline \<Rightarrow>
           (case pipeline_label e txt of
              Inl err \<Rightarrow> (''NEUTRAL'', st')
            | Inr label \<Rightarrow> (label, st'))))"

text \<open>\<open>random.choice\<close> on a non-empty literal list; \<open>random_pick\<close> is the draw.\<close>

definition random_choice :: "env \<Rightarrow> string list \<Rightarrow> string" where
  "random_choice e xs = xs ! (random_pick e mod length xs)"

definition generate_response :: "env \<Rightarrow> assistant \<Rightarrow> string \<Rightarrow> string \<times> assistant" where
  "generate_response e st txt =
     (case analyze_sentiment e st txt of
        (label, st') \<Rightarrow>
          (if label = ''POSITIVE'' then
             (random_choice e [''That sounds great!'', ''I'm glad to hear that.'', ''Wonderful!''],
              st')
           else if label = ''NEGATIVE'' then
             (random_choice e [''I'm sorry you're feeling that way.'',
                               ''That sounds challenging.'', ''I hope things get better.''],
              st')
           else (''I'm not sure how to respond to that, but I'm here to help!'', st')))"

subsection \<open>The rules\<close>

text \<open>
  The first \<open>if\<close>/\<open>elif\<close> chain after the farewell test (lines 172 to 188): the
  browser commands. \<open>self.browser\<close> is read without a \<open>hasattr\<close> test in the
  \<open>play\<close> branch.
\<close>

definition browser_commands :: "string \<Rightarrow> run_state \<Rightarrow> run_state" where
  "browser_commands command rs =
     (if contains ''open youtube'' command then
        (if browser_attr (self rs) then emit (OpenUrl ''youtube.com'') rs
         else speak ''I'm sorry, browser features are unavailable due to missing dependencies.'' rs)
      else if contains ''play'' command then
        (if ''pywhatkit'' \<notin> set (missing_deps (self rs)) then
           (if browser_attr (self rs)
            then emit (SearchYoutube (strip (remove_all ''play'' command))) rs
            else raise AttributeError rs)
         else speak ''I'm sorry, YouTube features are unavailable due to missing dependencies.'' rs)
      else if contains ''search'' command \<and> contains ''google'' command then
        (if browser_attr (self rs) then
           emit (SearchGoogle (strip (remove_all ''google'' (remove_all ''search'' command)))) rs
         else speak ''I'm sorry, browser features are unavailable due to missing dependencies.'' rs)
      else rs)"

definition system_unavailable :: string where
  "system_unavailable = ''System commands are unavailable due to missing dependencies.''"

text \<open>
  The \<open>shutdown\<close> rule (lines 191 to 199). Both calls pass \<open>confirm\<close> by keyword and
  nothing for the first parameter; the response of the confirmed call is not spoken.
\<close>

definition shutdown_rule :: "env \<Rightarrow> string \<Rightarrow> run_state \<Rightarrow> run_state" where
  "shutdown_rule e command rs =
     (if system_attr (self rs) then
        (if contains ''confirm shutdown'' command then
           (case shutdown None True True (platform_system e) of
              Inl err \<Rightarrow> raise err rs
            | Inr (cmds, response) \<Rightarrow> os_calls cmds rs)
         else
           (case shutdown None False True (platform_system e) of
              Inl err \<Rightarrow> raise err rs
            | Inr (cmds, response) \<Rightarrow> block [os_calls cmds, speak response] rs))
      else speak system_unavailable rs)"

definition cancel_shutdown_rule :: "env \<Rightarrow> run_state \<Rightarrow> run_state" where
  "cancel_shutdown_rule e rs =
     (if system_attr (self rs) then
        (case cancel_shutdown (platform_system e) of
           (cmds, response) \<Rightarrow> block [os_calls cmds, speak response] rs)
      else speak system_unavailable rs)"

definition restart_rule :: "env \<Rightarrow> run_state \<Rightarrow> run_state" where
  "restart_rule e rs =
     (if system_attr (self rs) then os_calls (restart (platform_system e)) rs
      else speak system_unavailable rs)"

definition sleep_rule :: "env \<Rightarrow> run_state \<Rightarrow> run_state" where
  "sleep_rule e rs =
     (if system_attr (self rs) then os_calls (sleep (platform_system e)) rs
      else speak system_unavailable rs)"

text \<open>
  The editor rule: \<open>find_application\<close> may raise and may assign \<open>app_cache\<close>;
  \<open>open_app\<close> catches its own exceptions.
\<close>

definition notepad_rule :: "env \<Rightarrow> run_state \<Rightarrow> run_state" where
  "notepad_rule e rs =
     (if platform_utils_attr (self rs) \<and> system_attr (self rs) then
        (case find_application e (self rs)
                (if pu_system (self rs) = ''Windows'' then ''notepad'' else ''textedit'') of
           (Inl err, st') \<Rightarrow> raise err (rs\<lparr>self := st'\<rparr>)
         | (Inr None, st') \<Rightarrow> rs\<lparr>self := st'\<rparr>
         | (Inr (Some app_path), st') \<Rightarrow>
             (if app_path \<noteq> [] then emit (OpenApp app_path) (rs\<lparr>self := st'\<rparr>)
              else rs\<lparr>self := st'\<rparr>))
      else speak ''Application commands are unavailable due to missing dependencies.'' rs)"

definition weather_rule :: "env \<Rightarrow> run_state \<Rightarrow> run_state" where
  "weather_rule e rs =
     (if weather_attr (self rs) then
        block [emit (GetWeather ''London''), speak (weather_report e ''London'')] rs
      else speak ''Weather features are unavailable due to missing dependencies.'' rs)"

text \<open>\<open>enumerate(headlines, 1)\<close>: the headlines with their numbers from \<open>i\<close> on.\<close>

fun speak_headlines :: "nat \<Rightarrow> string list \<Rightarrow> (run_state \<Rightarrow> run_state) list" where
  "speak_headlines i [] = []"
| "speak_headlines i (headline # rest) =
     speak (''Headline '' @ decimal i @ '': '' @ headline) # speak_headlines (Suc i) rest"

definition news_rule :: "env \<Rightarrow> run_state \<Rightarrow> run_state" where
  "news_rule e rs =
     (if news_attr (self rs) then
        block (speak ''Here are today's top headlines:'' # emit GetNews
                 # speak_headlines 1 (headlines e)) rs
      else speak ''News features are unavailable due to missing dependencies.'' rs)"

text \<open>
  The location rule: \<open>get_location\<close> returns a dictionary, which holds only the key
  \<open>'error'\<close> when the lookup failed; \<open>location['city']\<close> raises \<open>KeyError\<close> then.
\<close>

definition location_rule :: "env \<Rightarrow> run_state \<Rightarrow> run_state" where
  "location_rule e rs =
     (if location_attr (self rs) then
        (case (map_of (location_dict e) ''city'', map_of (location_dict e) ''region'',
               map_of (location_dict e) ''country'') of
           (Some city, Some region, Some country) \<Rightarrow>
             block [emit GetLocation,
                    speak (''You are in '' @ city @ '', '' @ region @ '', '' @ country)] rs
         | other \<Rightarrow> block [emit GetLocation, raise KeyError] rs)
      else speak ''Location features are unavailable due to missing dependencies.'' rs)"

definition wikipedia_rule :: "env \<Rightarrow> string \<Rightarrow> run_state \<Rightarrow> run_state" where
  "wikipedia_rule e command rs =
     (if wiki_attr (self rs) then
        (let query = strip (remove_all ''wikipedia'' command) in
         block [emit (WikiSearch query), speak ''According to Wikipedia'',
                speak (wiki_summary e query)] rs)
      else speak ''Wikipedia features are unavailable due to missing dependencies.'' rs)"

definition screenshot_rule :: "env \<Rightarrow> run_state \<Rightarrow> run_state" where
  "screenshot_rule e rs =
     (if screenshot_attr (self rs) then
        block [speak ''Taking screenshot'', emit TakeScreenshot,
               speak (''Screenshot saved to '' @ screenshot_path e)] rs
      else speak ''Screenshot features are unavailable due to missing dependencies.'' rs)"

definition default_rule :: "env \<Rightarrow> string \<Rightarrow> run_state \<Rightarrow> run_state" where
  "default_rule e command rs =
     (if raised rs = None then
        (case generate_response e (self rs) command of
           (response, st') \<Rightarrow> speak response (rs\<lparr>self := st'\<rparr>))
      else rs)"

text \<open>
  The second chain (lines 191 to 276). It starts with a fresh \<open>if\<close>, so it runs after
  the browser chain whatever that chain did, and its \<open>else\<close> is the default responder.
\<close>

definition system_commands :: "env \<Rightarrow> string \<Rightarrow> run_state \<Rightarrow> run_state" where
  "system_commands e command rs =
     (if raised rs \<noteq> None then rs
      else if contains ''shutdown'' command then shutdown_rule e command rs
      else if contains ''cancel shutdown'' command then cancel_shutdown_rule e rs
      else if contains ''restart'' command then restart_rule e rs
      else if contains ''sleep'' command then sleep_rule e rs
      else if contains ''notepad'' command \<or> contains ''text editor'' command
        then notepad_rule e rs
      else if contains ''weather'' command then weather_rule e rs
      else if contains ''news'' command then news_rule e rs
      else if contains ''where am i'' command then location_rule e rs
      else if contains ''wikipedia'' command then wikipedia_rule e command rs
      else if contains ''screenshot'' command \<or> contains ''take ss'' command
        then screenshot_rule e rs
      else default_rule e command rs)"

subsection \<open>process_command\<close>

definition dangerous_chars :: "char list" where
  "dangerous_chars =
     [CHR 0x60, CHR ''$'', CHR ''('', CHR '')'', CHR ''{'', CHR ''}'', CHR ''['', CHR '']'',
      CHR ''&'', CHR ''|'', CHR '';'', CHR 0x5C]"

text \<open>\<open>any(c in dangerous_chars for c in command)\<close>.\<close>

definition has_dangerous :: "string \<Rightarrow> bool" where
  "has_dangerous command = list_ex (\<lambda>c. c \<in> set dangerous_chars) command"

text \<open>\<open>command.lower().strip()\<close>.\<close>

definition normalize :: "string \<Rightarrow> string" where
  "normalize raw = strip (lower raw)"

text \<open>
  What a call of \<open>process_command\<close> leaves: the returned boolean or the exception that
  left the method, the instance afterwards, and the events in order.
\<close>

record outcome =
  result :: "error + bool"
  assistant_after :: assistant
  events :: "event list"

definition finish :: "run_state \<Rightarrow> outcome" where
  "finish rs =
     \<lparr>result = (case raised rs of None \<Rightarrow> Inr True | Some err \<Rightarrow> Inl err),
      assistant_after = self rs, events = log rs\<rparr>"

definition farewell :: "string \<Rightarrow> bool" where
  "farewell command = (contains ''goodbye'' command \<or> contains ''bye'' command)"

definition process_command :: "env \<Rightarrow> assistant \<Rightarrow> pyobj \<Rightarrow> outcome" where
  "process_command e st arg =
     (case arg of
        NonStr \<Rightarrow> \<lparr>result = Inr True, assistant_after = st, events = []\<rparr>
      | Str raw \<Rightarrow>
          (if raw = [] then \<lparr>result = Inr True, assistant_after = st, events = []\<rparr>
           else
             (let command = normalize raw in
              if has_dangerous command then
                \<lparr>result = Inr True, assistant_after = st,
                 events = [Speak ''I'm sorry, that command contains characters I can't process.'']\<rparr>
              else
                (let st1 = update_conversation_history st command ''user'' (now_iso e) in
                 if farewell command then
                   \<lparr>result = Inr False, assistant_after = st1,
                    events = [Speak ''Goodbye! Have a great day!'']\<rparr>
                 else
                   finish (system_commands e command
                             (browser_commands command
                                \<lparr>self = st1, log = [], raised = None\<rparr>))))))"

text \<open>The inputs that \<open>process_command\<close> turns away before it dispatches.\<close>

fun rejected :: "pyobj \<Rightarrow> bool" where
  "rejected NonStr = True"
| "rejected (Str raw) = (raw = [] \<or> has_dangerous (normalize raw))"

subsection \<open>run\<close>

text \<open>\<open>wish_user\<close>: the greeting by the hour of the day.\<close>

definition wish_user :: "env \<Rightarrow> assistant \<Rightarrow> event" where
  "wish_user e st =
     Speak ((if hour e < 12 then ''Good Morning! It's '' @ time_str e
             else if hour e < 16 then ''Good Afternoon! It's '' @ time_str e
             else if hour e < 20 then ''Good Evening! It's '' @ time_str e
             else ''Hello! It's '' @ time_str e)
            @ ''. I am '' @ config_name st @ '', how may I assist you?'')"

text \<open>
  How \<open>run\<close> ended: it refused to start, the farewell stopped the loop, an exception
  left it, or it is still listening when the recorded utterances are used up.
\<close>

datatype run_result = NotStarted | Farewell | Crashed error | Listening

text \<open>
  The loop of \<open>run\<close> over what \<open>listen()\<close> delivers in turn: an exception, \<open>None\<close>,
  or a string. Neither \<open>run\<close> nor \<open>process_command\<close> has an exception handler.
\<close>

fun run_loop ::
    "env \<Rightarrow> assistant \<Rightarrow> event list \<Rightarrow> (error + string option) list
       \<Rightarrow> run_result \<times> assistant \<times> event list" where
  "run_loop e st evs [] = (Listening, st, evs)"
| "run_loop e st evs (Inl err # rest) = (Crashed err, st, evs)"
| "run_loop e st evs (Inr None # rest) = run_loop e st evs rest"
| "run_loop e st evs (Inr (Some command) # rest) =
     (if command = [] then run_loop e st evs rest
      else
        (let out = process_command e st (Str command) in
         (case result out of
            Inl err \<Rightarrow> (Crashed err, assistant_after out, evs @ events out)
          | Inr running \<Rightarrow>
              (if running then run_loop e (assistant_after out) (evs @ events out) rest
               else (Farewell, assistant_after out, evs @ events out)))))"

definition run ::
    "env \<Rightarrow> assistant \<Rightarrow> (error + string option) list \<Rightarrow> run_result \<times> assistant \<times> event list" where
  "run e st heard =
     (if ''speech_recognition'' \<in> set (missing_deps st) \<or> ''pyttsx3'' \<in> set (missing_deps st)
      then (NotStarted, st, [])
      else if \<not> microphone_ok e then (NotStarted, st, [])
      else run_loop e st [wish_user e st] heard)"

section \<open>A sample deployment\<close>

text \<open>
  An instance with the attributes \<open>__init__\<close> assigns when no dependency is missing,
  on Linux, and an environment in which every provider answers.
\<close>

definition sample_assistant :: assistant where
  "sample_assistant =
     \<lparr>missing_deps = [], config_name = ''Friday'', browser_attr = True, system_attr = True,
      platform_utils_attr = True, weather_attr = True, news_attr = True,
      location_attr = True, wiki_attr = True, screenshot_attr = True,
      pu_system = ''Linux'', app_cache = Map.empty, conversation_history = [],
      max_history_length = 10, NLP_AVAILABLE = False, sentiment_analyzer = None,
      intent_classifier = None\<rparr>"

definition sample_env :: env where
  "sample_env =
     \<lparr>platform_system = ''Linux'', now_iso = ''2024-01-01T09:00:00'', hour = 9,
      time_str = ''09:00 AM'', microphone_ok = True,
      weather_report = (\<lambda>city. ''The temperature in '' @ city @ '' is 10 C with rain''),
      headlines = [''First'', ''Second''],
      location_dict = [(''city'', ''Pune''), (''country'', ''IN''), (''region'', ''MH'')],
      wiki_summary = (\<lambda>q. ''About '' @ q),
      screenshot_path = ''/home/user/Screenshots/shot.png'',
      pipeline_loads = False, pipeline_label = (\<lambda>t. Inr ''NEUTRAL''), random_pick = 0,
      registry_tokens = None, say_run = Inl OSError, espeak_run = Inr [],
      home = ''/home/user'', clock = (\<lambda>k. int k),
      scan_directory = (\<lambda>d depth paths. paths)\<rparr>"

text \<open>The same environment when the location lookup has failed.\<close>

definition offline_env :: env where
  "offline_env = sample_env\<lparr>location_dict := [(''error'', ''no route to host'')]\<rparr>"

text \<open>Twelve turns to append, for the bound of the history.\<close>

definition twelve_turns :: "(string \<times> string \<times> string) list" where
  "twelve_turns =
     [(''t1'', ''user'', ''01''), (''t2'', ''user'', ''02''), (''t3'', ''user'', ''03''),
      (''t4'', ''user'', ''04''), (''t5'', ''user'', ''05''), (''t6'', ''user'', ''06''),
      (''t7'', ''user'', ''07''), (''t8'', ''user'', ''08''), (''t9'', ''user'', ''09''),
      (''t10'', ''user'', ''10''), (''t11'', ''user'', ''11''), (''t12'', ''user'', ''12'')]"

section \<open>Substring and normalisation facts\<close>

lemma contains_iff: "contains sub s \<longleftrightarrow> (\<exists>ps ss. s = ps @ sub @ ss)"
proof (induction s)
  case Nil then show ?case by auto
next
  case (Cons c cs)
  show ?case
  proof
    assume "contains sub (c # cs)"
    then consider "prefix sub (c # cs)" | "contains sub cs" by auto
    then show "\<exists>ps ss. c # cs = ps @ sub @ ss"
    proof cases
      case 1
      then obtain ss where "c # cs = sub @ ss" by (auto simp: prefix_def)
      then have "c # cs = [] @ sub @ ss" by simp
      then show ?thesis by blast
    next
      case 2
      with Cons.IH obtain ps ss where "cs = ps @ sub @ ss" by blast
      then have "c # cs = (c # ps) @ sub @ ss" by simp
      then show ?thesis by blast
    qed
  next
    assume "\<exists>ps ss. c # cs = ps @ sub @ ss"
    then obtain ps ss where e: "c # cs = ps @ sub @ ss" by blast
    show "contains sub (c # cs)"
    proof (cases ps)
      case Nil
      with e have "prefix sub (c # cs)" by (simp add: prefix_def)
      then show ?thesis by simp
    next
      case (Cons p ps')
      with e have "cs = ps' @ sub @ ss" by simp
      with Cons.IH have "contains sub cs" by blast
      then show ?thesis by simp
    qed
  qed
qed

lemma contains_suffix_part: "contains (a @ b) s \<Longrightarrow> contains b s"
proof -
  assume "contains (a @ b) s"
  then obtain ps ss where "s = ps @ (a @ b) @ ss" unfolding contains_iff by blast
  then have "s = (ps @ a) @ b @ ss" by simp
  then show ?thesis unfolding contains_iff by blast
qed

lemma cancel_contains_shutdown: "contains ''cancel shutdown'' s \<Longrightarrow> contains ''shutdown'' s"
  using contains_suffix_part[of "''cancel ''" "''shutdown''" s] by simp

lemma goodbye_contains_bye: "contains ''goodbye'' s \<Longrightarrow> contains ''bye'' s"
  using contains_suffix_part[of "''good''" "''bye''" s] by simp

lemma normalize_empty: "normalize [] = []"
  by (simp add: normalize_def strip_def lower_def)

lemma has_dangerous_nonempty: "has_dangerous (normalize raw) \<Longrightarrow> raw \<noteq> []"
  by (auto simp: normalize_empty has_dangerous_def)

section \<open>Input validation\<close>

text \<open>
  Claim C4. Whenever the lower-cased, trimmed input contains one of the characters
  backtick, dollar sign, parentheses, braces, brackets, ampersand, pipe, semicolon or
  backslash, \<open>process_command\<close> returns \<open>True\<close>, its only effect is to speak the
  clarification sentence, and no feature action is called.
\<close>

theorem dangerous_input_rejected:
  assumes "has_dangerous (normalize raw)"
  shows "process_command e st (Str raw) =
           \<lparr>result = Inr True, assistant_after = st,
            events = [Speak ''I'm sorry, that command contains characters I can't process.'']\<rparr>
         \<and> filter is_action (events (process_command e st (Str raw))) = []"
  using assms has_dangerous_nonempty[OF assms]
  by (simp add: process_command_def Let_def)

lemma normalize_injection_example:
  "normalize ''Open YouTube; rm -rf /'' = ''open youtube; rm -rf /''"
  by (simp add: normalize_def strip_def lower_def lower_char_def is_space_def)

theorem dangerous_input_rejected_witness:
  "has_dangerous (normalize ''Open YouTube; rm -rf /'')
   \<and> process_command sample_env sample_assistant (Str ''Open YouTube; rm -rf /'') =
       \<lparr>result = Inr True, assistant_after = sample_assistant,
        events = [Speak ''I'm sorry, that command contains characters I can't process.'']\<rparr>
   \<and> filter is_action
        (events (process_command sample_env sample_assistant (Str ''Open YouTube; rm -rf /''))) = []"
proof -
  have h: "has_dangerous (normalize ''Open YouTube; rm -rf /'')"
    by (simp add: normalize_injection_example has_dangerous_def dangerous_chars_def)
  show ?thesis using h dangerous_input_rejected[OF h, of sample_env sample_assistant] by simp
qed

text \<open>
  The disallowed set holds each of the twelve characters the claim lists.
\<close>

lemma dangerous_chars_listed:
  "set dangerous_chars =
     {CHR 0x60, CHR ''$'', CHR ''('', CHR '')'', CHR ''['', CHR '']'', CHR ''{'', CHR ''}'',
      CHR ''&'', CHR ''|'', CHR '';'', CHR 0x5C}"
  by (auto simp: dangerous_chars_def)

text \<open>
  Claim C10. An input that is turned away before dispatch (not a string, the empty
  string, or a string whose normal form has a disallowed character) leaves the
  instance as it was: no turn is appended and no attribute changes; the call returns
  \<open>True\<close>.
\<close>

theorem rejected_input_leaves_state:
  assumes "rejected arg"
  shows "assistant_after (process_command e st arg) = st
         \<and> result (process_command e st arg) = Inr True"
proof (cases arg)
  case NonStr
  then show ?thesis by (simp add: process_command_def)
next
  case (Str raw)
  with assms show ?thesis by (auto simp: process_command_def Let_def)
qed

theorem rejected_input_leaves_state_witness:
  "rejected NonStr \<and> rejected (Str []) \<and> rejected (Str ''ls | grep x'')
   \<and> assistant_after (process_command sample_env sample_assistant NonStr) = sample_assistant
   \<and> assistant_after (process_command sample_env sample_assistant (Str [])) = sample_assistant
   \<and> assistant_after (process_command sample_env sample_assistant (Str ''ls | grep x''))
       = sample_assistant"
proof -
  have n: "normalize ''ls | grep x'' = ''ls | grep x''"
    by (simp add: normalize_def strip_def lower_def lower_char_def is_space_def)
  have h: "rejected (Str ''ls | grep x'')"
    by (simp add: n has_dangerous_def dangerous_chars_def)
  have h1: "rejected NonStr" and h2: "rejected (Str [])" by simp_all
  show ?thesis
    using h h1 h2
      rejected_input_leaves_state[OF h, of sample_env sample_assistant]
      rejected_input_leaves_state[OF h1, of sample_env sample_assistant]
      rejected_input_leaves_state[OF h2, of sample_env sample_assistant]
    by simp
qed

section \<open>Conversation history\<close>

lemma update_length:
  assumes "max_history_length st = 10" and "length (conversation_history st) \<le> 10"
  shows "conversation_history (update_conversation_history st t s n) =
     drop (length (conversation_history st) + 1 - 10) (conversation_history st @ [as_turn (t, s, n)])"
proof (cases "length (conversation_history st) = 10")
  case True
  then obtain a list where c: "conversation_history st = a # list"
    by (cases "conversation_history st") auto
  with True have "length list = 9" by simp
  then show ?thesis using assms c
    by (simp add: update_conversation_history_def Let_def as_turn_def)
next
  case False
  with assms have "length (conversation_history st) < 10" by simp
  then show ?thesis using assms
    by (simp add: update_conversation_history_def Let_def as_turn_def)
qed

lemma update_max:
  "max_history_length (update_conversation_history st t s n) = max_history_length st"
  by (simp add: update_conversation_history_def Let_def)

lemma append_turns_history:
  "max_history_length st = 10 \<Longrightarrow> length (conversation_history st) \<le> 10 \<Longrightarrow>
   conversation_history (append_turns st ts) =
     drop (length (conversation_history st) + length ts - 10)
       (conversation_history st @ map as_turn ts)"
proof (induction ts arbitrary: st)
  case Nil then show ?case by simp
next
  case (Cons a ts)
  obtain t s n where a: "a = (t, s, n)" by (cases a) auto
  let ?st = "update_conversation_history st t s n"
  let ?H = "conversation_history st"
  let ?k = "length ?H + 1 - 10"
  have h: "conversation_history ?st = drop ?k (?H @ [as_turn a])"
    using update_length[OF Cons.prems] by (simp add: a)
  have m: "max_history_length ?st = 10" using Cons.prems by (simp add: update_max)
  have l: "length (conversation_history ?st) = length ?H + 1 - ?k" using h by simp
  have l10: "length (conversation_history ?st) \<le> 10" using l Cons.prems(2) by arith
  have k: "?k \<le> length (?H @ [as_turn a])" by simp
  have "conversation_history (append_turns st (a # ts)) =
          conversation_history (append_turns ?st ts)"
    by (simp add: a)
  also have "\<dots> = drop (length (conversation_history ?st) + length ts - 10)
                    (conversation_history ?st @ map as_turn ts)"
    using Cons.IH[OF m l10] .
  also have "conversation_history ?st @ map as_turn ts =
               drop ?k ((?H @ [as_turn a]) @ map as_turn ts)"
    using k unfolding h by simp
  also have "drop (length (conversation_history ?st) + length ts - 10)
                (drop ?k ((?H @ [as_turn a]) @ map as_turn ts))
      = drop (length (conversation_history ?st) + length ts - 10 + ?k)
          ((?H @ [as_turn a]) @ map as_turn ts)"
    by (simp only: drop_drop)
  also have "length (conversation_history ?st) + length ts - 10 + ?k =
               length ?H + length (a # ts) - 10"
    using l Cons.prems(2) by simp
  finally show ?case by simp
qed

text \<open>
  Claim C7. With the maximum of 10 that \<open>__init__\<close> sets, a history of at most 10
  turns stays at most 10 turns long after any sequence of appends, and it is exactly
  the last turns of the old history followed by the appended ones: the turns dropped
  are the oldest, and the order of the others is kept.
\<close>

theorem history_bounded_fifo:
  assumes "max_history_length st = 10" and "length (conversation_history st) \<le> 10"
  shows "length (conversation_history (append_turns st ts)) \<le> 10
         \<and> conversation_history (append_turns st ts) =
             drop (length (conversation_history st) + length ts - 10)
               (conversation_history st @ map as_turn ts)"
proof -
  have e: "conversation_history (append_turns st ts) =
             drop (length (conversation_history st) + length ts - 10)
               (conversation_history st @ map as_turn ts)"
    using append_turns_history[OF assms] .
  have "length (conversation_history (append_turns st ts)) \<le> 10"
    unfolding e using assms(2) by simp
  with e show ?thesis by simp
qed

theorem history_bounded_fifo_witness:
  "max_history_length sample_assistant = 10
   \<and> length (conversation_history sample_assistant) \<le> 10
   \<and> length (conversation_history (append_turns sample_assistant twelve_turns)) \<le> 10
   \<and> conversation_history (append_turns sample_assistant twelve_turns) =
       map as_turn (drop 2 twelve_turns)"
proof -
  have m: "max_history_length sample_assistant = 10" by (simp add: sample_assistant_def)
  have l: "length (conversation_history sample_assistant) \<le> 10"
    by (simp add: sample_assistant_def)
  have c: "conversation_history sample_assistant = []" by (simp add: sample_assistant_def)
  have n: "length twelve_turns = 12" by (simp add: twelve_turns_def)
  show ?thesis
    using m l history_bounded_fifo[OF m l, of twelve_turns]
    by (simp add: c n drop_map)
qed

section \<open>Dispatch\<close>

lemma update_keeps_attrs:
  "system_attr (update_conversation_history st t s n) = system_attr st"
  "browser_attr (update_conversation_history st t s n) = browser_attr st"
  "location_attr (update_conversation_history st t s n) = location_attr st"
  "missing_deps (update_conversation_history st t s n) = missing_deps st"
  by (simp_all add: update_conversation_history_def Let_def)

lemmas statement_defs = emit_def speak_def raise_def os_calls_def finish_def

lemmas normalize_defs = normalize_def strip_def lower_def lower_char_def is_space_def

lemma sample_attrs:
  "system_attr sample_assistant" "browser_attr sample_assistant"
  "location_attr sample_assistant" "missing_deps sample_assistant = []"
  by (simp_all add: sample_assistant_def)

lemma browser_commands_effect:
  assumes "browser_attr (self rs)" and "raised rs = None"
  shows "raised (browser_commands c rs) = None"
    and "self (browser_commands c rs) = self rs"
    and "log rs = [] \<Longrightarrow> Speak t \<in> set (log (browser_commands c rs)) \<Longrightarrow>
           t = ''I'm sorry, YouTube features are unavailable due to missing dependencies.''"
    and "log rs = [] \<Longrightarrow> OsSystem x \<notin> set (log (browser_commands c rs))"
  using assms by (auto simp: browser_commands_def statement_defs split: if_splits)

lemma browser_commands_log:
  assumes "log rs = []"
  shows "OsSystem x \<notin> set (log (browser_commands c rs))"
    and "Speak ''Shutdown canceled'' \<notin> set (log (browser_commands c rs))"
  using assms by (simp_all add: browser_commands_def statement_defs)

lemma shutdown_rule_raises:
  assumes "system_attr (self rs)" and "raised rs = None"
  shows "shutdown_rule e c rs = rs\<lparr>raised := Some TypeError\<rparr>"
  using assms by (simp add: shutdown_rule_def shutdown_def raise_def)

lemma shutdown_branch_log:
  assumes "contains ''shutdown'' c"
  shows "log (system_commands e c rs) = log rs
         \<or> log (system_commands e c rs) = log rs @ [Speak system_unavailable]"
  using assms
  by (simp add: system_commands_def shutdown_rule_def shutdown_def statement_defs)

lemma normalize_confirm_shutdown: "normalize ''confirm shutdown'' = ''confirm shutdown''"
  by (simp add: normalize_defs)

lemma normalize_where_am_i: "normalize ''where am i'' = ''where am i''"
  by (simp add: normalize_defs)

lemma normalize_cancel_shutdown: "normalize ''cancel shutdown'' = ''cancel shutdown''"
  by (simp add: normalize_defs)

lemma normalize_play_restart: "normalize ''play restart'' = ''play restart''"
  by (simp add: normalize_defs)

lemma query_play_restart: "strip (remove_all ''play'' ''play restart'') = ''restart''"
  by (simp add: remove_all_def strip_def is_space_def)

lemma normalize_Bye: "normalize ''Bye'' = ''bye''"
  by (simp add: normalize_defs)

lemma normalize_bye_semicolon: "normalize ''bye;'' = ''bye;''"
  by (simp add: normalize_defs)

lemma assistant_turns_tl:
  "length (assistant_turns (tl h)) \<le> length (assistant_turns h)"
  by (cases h) (simp_all add: assistant_turns_def)

lemma normalize_Bye_padded: "normalize [CHR '' '', CHR ''B'', CHR ''y'', CHR ''e'', CHR 0xA0] = ''bye''"
  by (simp add: normalize_defs)

subsection \<open>The shutdown rule\<close>

text \<open>
  Claim C1 does not hold of the code. For every accepted command that contains
  \<open>shutdown\<close> and is not a farewell, with or without \<open>confirm shutdown\<close>, the call
  \<open>self.system.shutdown(confirm=...)\<close> binds nothing to the parameter \<open>self\<close> of the
  static method and raises \<open>TypeError\<close>: \<open>process_command\<close> ends with that exception,
  the confirmation prompt is not spoken and no \<open>os.system\<close> call is made, so the
  confirmed shutdown never reaches the operating system either.
\<close>

theorem shutdown_call_never_binds:
  assumes "system_attr st" and "browser_attr st" and "raw \<noteq> []"
    and "\<not> has_dangerous (normalize raw)" and "\<not> farewell (normalize raw)"
    and "contains ''shutdown'' (normalize raw)"
  shows "result (process_command e st (Str raw)) = Inl TypeError
         \<and> Speak (''Please confirm by saying 'confirm shutdown'' @ [CHR 0x27])
              \<notin> set (events (process_command e st (Str raw)))
         \<and> OsSystem x \<notin> set (events (process_command e st (Str raw)))"
proof -
  let ?st1 = "update_conversation_history st (normalize raw) ''user'' (now_iso e)"
  let ?rs0 = "\<lparr>self = ?st1, log = [], raised = None\<rparr>"
  let ?rs1 = "browser_commands (normalize raw) ?rs0"
  have b: "browser_attr (self ?rs0)" "raised ?rs0 = None" "log ?rs0 = []"
    using assms(2) by (simp_all add: update_keeps_attrs)
  have r1: "raised ?rs1 = None" and s1: "self ?rs1 = ?st1"
    using browser_commands_effect(1,2)[OF b(1,2)] by simp_all
  have sys: "system_attr (self ?rs1)" using assms(1) by (simp add: s1 update_keeps_attrs)
  have out: "process_command e st (Str raw) = finish (?rs1\<lparr>raised := Some TypeError\<rparr>)"
    using assms(3,4,5,6) r1 shutdown_rule_raises[OF sys r1]
    by (simp add: process_command_def Let_def system_commands_def)
  have ev: "events (process_command e st (Str raw)) = log ?rs1"
    by (simp add: out finish_def)
  have "OsSystem x \<notin> set (log ?rs1)"
    using browser_commands_effect(4)[OF b(1,2,3)] .
  moreover have "Speak (''Please confirm by saying 'confirm shutdown'' @ [CHR 0x27])
                   \<notin> set (log ?rs1)"
    using browser_commands_effect(3)[OF b(1,2,3)] by fastforce
  ultimately show ?thesis by (simp add: ev) (simp add: out finish_def)
qed

theorem shutdown_call_never_binds_witness:
  "system_attr sample_assistant \<and> browser_attr sample_assistant
   \<and> ''confirm shutdown'' \<noteq> [] \<and> \<not> has_dangerous (normalize ''confirm shutdown'')
   \<and> \<not> farewell (normalize ''confirm shutdown'')
   \<and> contains ''shutdown'' (normalize ''confirm shutdown'')
   \<and> contains ''confirm shutdown'' (normalize ''confirm shutdown'')
   \<and> result (process_command sample_env sample_assistant (Str ''confirm shutdown''))
        = Inl TypeError
   \<and> OsSystem ''sudo shutdown -h +1''
        \<notin> set (events (process_command sample_env sample_assistant (Str ''confirm shutdown'')))"
proof -
  have h: "''confirm shutdown'' \<noteq> []" "\<not> has_dangerous (normalize ''confirm shutdown'')"
    "\<not> farewell (normalize ''confirm shutdown'')"
    "contains ''shutdown'' (normalize ''confirm shutdown'')"
    by (simp_all add: normalize_confirm_shutdown has_dangerous_def dangerous_chars_def
        farewell_def)
  have c: "contains ''confirm shutdown'' (normalize ''confirm shutdown'')"
    by (simp add: normalize_confirm_shutdown)
  show ?thesis
    using h c sample_attrs(1,2)
      shutdown_call_never_binds[OF sample_attrs(1,2) h, of sample_env "''sudo shutdown -h +1''"]
    by simp
qed

subsection \<open>Exceptions of a rule\<close>

text \<open>
  Claim C2 does not hold of the code. When the location lookup has failed, the
  dictionary \<open>get_location\<close> returns has no key \<open>'city'\<close>, and the accepted command
  \<open>where am i\<close> makes \<open>process_command\<close> end with \<open>KeyError\<close> instead of returning a
  boolean; \<open>run\<close> has no handler, so its loop ends with that exception whatever
  utterances would have followed.
\<close>

theorem dispatch_exception_ends_run:
  assumes "location_attr st" and "map_of (location_dict e) ''city'' = None"
  shows "result (process_command e st (Str ''where am i'')) = Inl KeyError
         \<and> fst (run_loop e st evs (Inr (Some ''where am i'') # rest)) = Crashed KeyError"
proof -
  have r: "result (process_command e st (Str ''where am i'')) = Inl KeyError"
    using assms
    by (simp add: process_command_def normalize_where_am_i has_dangerous_def
        dangerous_chars_def farewell_def Let_def browser_commands_def system_commands_def
        location_rule_def statement_defs update_keeps_attrs)
  then show ?thesis by (simp add: Let_def)
qed

theorem dispatch_exception_ends_run_witness:
  "location_attr sample_assistant \<and> map_of (location_dict offline_env) ''city'' = None
   \<and> result (process_command offline_env sample_assistant (Str ''where am i'')) = Inl KeyError
   \<and> fst (run_loop offline_env sample_assistant []
             [Inr (Some ''where am i''), Inr (Some ''open youtube'')]) = Crashed KeyError"
proof -
  have m: "map_of (location_dict offline_env) ''city'' = None"
    by (simp add: offline_env_def sample_env_def)
  show ?thesis
    using m sample_attrs(3)
      dispatch_exception_ends_run[OF sample_attrs(3) m, of "[]" "[Inr (Some ''open youtube'')]"]
    by (simp del: run_loop.simps)
qed

subsection \<open>Cancelling a shutdown\<close>

text \<open>
  Claim C3 does not hold of the code. A command that contains \<open>cancel shutdown\<close>
  contains \<open>shutdown\<close>, so the \<open>shutdown\<close> test before it in the same chain always
  wins: for every such command the cancel operation is never called (neither
  \<open>shutdown /a\<close> nor \<open>sudo shutdown -c\<close> is issued) and its status message
  \<open>Shutdown canceled\<close> is never spoken.
\<close>

theorem cancel_shutdown_unreachable:
  assumes "contains ''cancel shutdown'' (normalize raw)"
  shows "OsSystem ''shutdown /a'' \<notin> set (events (process_command e st (Str raw)))
         \<and> OsSystem ''sudo shutdown -c'' \<notin> set (events (process_command e st (Str raw)))
         \<and> Speak ''Shutdown canceled'' \<notin> set (events (process_command e st (Str raw)))"
proof -
  let ?c = "normalize raw"
  let ?rs0 = "\<lparr>self = update_conversation_history st ?c ''user'' (now_iso e),
               log = [], raised = None\<rparr>"
  let ?rs1 = "browser_commands ?c ?rs0"
  let ?rs2 = "system_commands e ?c ?rs1"
  have sd: "contains ''shutdown'' ?c"
    using cancel_contains_shutdown[OF assms] .
  have l0: "log ?rs0 = []" by simp
  have b: "OsSystem x \<notin> set (log ?rs1)" "Speak ''Shutdown canceled'' \<notin> set (log ?rs1)" for x
    using browser_commands_log[OF l0] by blast+
  have u: "Speak ''Shutdown canceled'' \<noteq> Speak system_unavailable"
    by (simp add: system_unavailable_def)
  have d: "OsSystem x \<notin> set (log ?rs2)" "Speak ''Shutdown canceled'' \<notin> set (log ?rs2)" for x
    using shutdown_branch_log[OF sd, of e ?rs1] b u by auto
  have "events (process_command e st (Str raw)) = log ?rs2
        \<or> events (process_command e st (Str raw)) = []
        \<or> events (process_command e st (Str raw)) =
             [Speak ''I'm sorry, that command contains characters I can't process.'']
        \<or> events (process_command e st (Str raw)) = [Speak ''Goodbye! Have a great day!'']"
    by (simp add: process_command_def Let_def finish_def)
  then show ?thesis using d by auto
qed

theorem cancel_shutdown_unreachable_witness:
  "contains ''cancel shutdown'' (normalize ''cancel shutdown'')
   \<and> OsSystem ''sudo shutdown -c''
        \<notin> set (events (process_command sample_env sample_assistant (Str ''cancel shutdown'')))
   \<and> Speak ''Shutdown canceled''
        \<notin> set (events (process_command sample_env sample_assistant (Str ''cancel shutdown'')))"
proof -
  have h: "contains ''cancel shutdown'' (normalize ''cancel shutdown'')"
    by (simp add: normalize_cancel_shutdown)
  show ?thesis
    using h cancel_shutdown_unreachable[OF h, of sample_env sample_assistant] by simp
qed

subsection \<open>One rule per command\<close>

text \<open>
  Claim C5 does not hold of the code. The system rules start a second \<open>if\<close> chain
  instead of continuing the first with \<open>elif\<close>, so a command that matched a browser
  rule is matched against the system rules as well: \<open>play restart\<close> starts the video
  search for \<open>restart\<close> and then restarts the machine.
\<close>

theorem browser_rule_then_system_rule:
  assumes "browser_attr st" and "system_attr st" and "''pywhatkit'' \<notin> set (missing_deps st)"
  shows "events (process_command e st (Str ''play restart'')) =
           SearchYoutube ''restart'' # map OsSystem (restart (platform_system e))
         \<and> result (process_command e st (Str ''play restart'')) = Inr True"
  using assms
  by (simp add: process_command_def normalize_play_restart query_play_restart
      has_dangerous_def dangerous_chars_def farewell_def Let_def browser_commands_def
      system_commands_def restart_rule_def restart_def statement_defs update_keeps_attrs)

theorem browser_rule_then_system_rule_witness:
  "browser_attr sample_assistant \<and> system_attr sample_assistant
   \<and> ''pywhatkit'' \<notin> set (missing_deps sample_assistant)
   \<and> events (process_command sample_env sample_assistant (Str ''play restart'')) =
       [SearchYoutube ''restart'', OsSystem ''sudo shutdown -r now'']"
proof -
  have p: "''pywhatkit'' \<notin> set (missing_deps sample_assistant)"
    by (simp add: sample_attrs)
  have r: "restart (platform_system sample_env) = [''sudo shutdown -r now'']"
    by (simp add: restart_def sample_env_def)
  show ?thesis
    using p sample_attrs(1,2)
      browser_rule_then_system_rule[OF sample_attrs(2) sample_attrs(1) p, of sample_env]
    by (simp add: r)
qed

subsection \<open>The farewell\<close>

text \<open>
  Claim C6 as stated fails: for the input \<open>Bye\<close> the call returns \<open>False\<close>, but the
  only turn appended is the user's; no assistant turn is appended. And the input
  \<open>bye;\<close> contains \<open>bye\<close> but is turned away for its semicolon, with \<open>True\<close>.
\<close>

theorem farewell_no_assistant_turn:
  "contains ''bye'' (normalize ''Bye'')
   \<and> result (process_command sample_env sample_assistant (Str ''Bye'')) = Inr False
   \<and> conversation_history sample_assistant = []
   \<and> conversation_history
        (assistant_after (process_command sample_env sample_assistant (Str ''Bye'')))
       = [\<lparr>turn_text = ''bye'', speaker = ''user'', timestamp = ''2024-01-01T09:00:00''\<rparr>]
   \<and> assistant_turns (conversation_history
        (assistant_after (process_command sample_env sample_assistant (Str ''Bye'')))) = []
   \<and> contains ''bye'' (normalize ''bye;'')
   \<and> result (process_command sample_env sample_assistant (Str ''bye;'')) = Inr True"
  by (simp add: normalize_Bye normalize_bye_semicolon process_command_def has_dangerous_def
      dangerous_chars_def farewell_def Let_def update_conversation_history_def
      sample_assistant_def sample_env_def assistant_turns_def)

text \<open>
  Claim C6, amended. For every non-empty string whose normal form has no disallowed
  character and contains \<open>goodbye\<close> or \<open>bye\<close>, \<open>process_command\<close> returns \<open>False\<close>,
  speaks the farewell once and does nothing else to the outside world. The instance
  changes in its history only: the user's turn with the normalized command and the
  clock reading is put at the end, and the oldest turn is dropped when the list has
  grown beyond the maximum. No assistant turn is appended: the history has no more
  assistant turns than before.
\<close>

theorem farewell_returns_false:
  assumes "raw \<noteq> []" and "\<not> has_dangerous (normalize raw)"
    and "contains ''goodbye'' (normalize raw) \<or> contains ''bye'' (normalize raw)"
  shows "process_command e st (Str raw) =
           \<lparr>result = Inr False,
            assistant_after =
              st\<lparr>conversation_history :=
                   (if int (length (conversation_history st)) + 1 > max_history_length st
                    then tl (conversation_history st
                              @ [\<lparr>turn_text = normalize raw, speaker = ''user'',
                                   timestamp = now_iso e\<rparr>])
                    else conversation_history st
                           @ [\<lparr>turn_text = normalize raw, speaker = ''user'',
                                timestamp = now_iso e\<rparr>])\<rparr>,
            events = [Speak ''Goodbye! Have a great day!'']\<rparr>
         \<and> length (assistant_turns
              (conversation_history (assistant_after (process_command e st (Str raw)))))
             \<le> length (assistant_turns (conversation_history st))"
proof -
  let ?u = "\<lparr>turn_text = normalize raw, speaker = ''user'', timestamp = now_iso e\<rparr>"
  let ?h = "conversation_history st @ [?u]"
  have p: "process_command e st (Str raw) =
           \<lparr>result = Inr False,
            assistant_after =
              st\<lparr>conversation_history :=
                   (if int (length (conversation_history st)) + 1 > max_history_length st
                    then tl ?h else ?h)\<rparr>,
            events = [Speak ''Goodbye! Have a great day!'']\<rparr>"
    using assms
    by (simp add: process_command_def Let_def farewell_def update_conversation_history_def)
  have a: "assistant_turns ?h = assistant_turns (conversation_history st)"
    by (simp add: assistant_turns_def)
  have "length (assistant_turns (tl ?h)) \<le> length (assistant_turns (conversation_history st))"
    using assistant_turns_tl[of ?h] unfolding a .
  then show ?thesis unfolding p using a by simp
qed

theorem farewell_returns_false_witness:
  "[CHR '' '', CHR ''B'', CHR ''y'', CHR ''e'', CHR 0xA0] \<noteq> [] \<and> \<not> has_dangerous (normalize [CHR '' '', CHR ''B'', CHR ''y'', CHR ''e'', CHR 0xA0])
   \<and> contains ''bye'' (normalize [CHR '' '', CHR ''B'', CHR ''y'', CHR ''e'', CHR 0xA0])
   \<and> process_command sample_env sample_assistant (Str [CHR '' '', CHR ''B'', CHR ''y'', CHR ''e'', CHR 0xA0]) =
       \<lparr>result = Inr False,
        assistant_after =
          sample_assistant\<lparr>conversation_history :=
            [\<lparr>turn_text = ''bye'', speaker = ''user'', timestamp = ''2024-01-01T09:00:00''\<rparr>]\<rparr>,
        events = [Speak ''Goodbye! Have a great day!'']\<rparr>"
proof -
  have h: "[CHR '' '', CHR ''B'', CHR ''y'', CHR ''e'', CHR 0xA0] \<noteq> []" "\<not> has_dangerous (normalize [CHR '' '', CHR ''B'', CHR ''y'', CHR ''e'', CHR 0xA0])"
    by (simp_all add: normalize_Bye_padded has_dangerous_def dangerous_chars_def)
  have c: "contains ''bye'' (normalize [CHR '' '', CHR ''B'', CHR ''y'', CHR ''e'', CHR 0xA0])"
    by (simp add: normalize_Bye_padded)
  then have d: "contains ''goodbye'' (normalize [CHR '' '', CHR ''B'', CHR ''y'', CHR ''e'', CHR 0xA0])
                \<or> contains ''bye'' (normalize [CHR '' '', CHR ''B'', CHR ''y'', CHR ''e'', CHR 0xA0])"
    by simp
  have s: "conversation_history sample_assistant = []" "max_history_length sample_assistant = 10"
    "now_iso sample_env = ''2024-01-01T09:00:00''"
    by (simp_all add: sample_assistant_def sample_env_def)
  show ?thesis
    using h c farewell_returns_false[OF h d, of sample_env sample_assistant]
    by (simp add: normalize_Bye_padded s)
qed

section \<open>Platform inventory\<close>

text \<open>
  Claim C8 does not hold of the code. When \<open>espeak --voices\<close> runs but prints
  nothing, or only its header line, \<open>_get_linux_voices\<close> returns the empty list, not
  the one-element catalog \<open>["default"]\<close>; \<open>_get_mac_voices\<close> does the same for an
  empty listing. \<open>get_default_voice\<close> then returns the empty string. Only
  \<open>_get_windows_voices\<close> replaces an empty catalog by its built-in default.
\<close>

theorem linux_voices_may_be_empty:
  "get_linux_voices (e\<lparr>espeak_run := Inr []\<rparr>) = []
   \<and> get_linux_voices
       (e\<lparr>espeak_run := Inr ''Pty Language Age/Gender VoiceName File Other Languages''\<rparr>) = []
   \<and> get_mac_voices (e\<lparr>say_run := Inr []\<rparr>) = []
   \<and> get_default_voice (e\<lparr>espeak_run := Inr []\<rparr>) (st\<lparr>pu_system := ''Linux''\<rparr>) = []
   \<and> get_windows_voices e st \<noteq> []"
  by (simp add: get_linux_voices_def get_mac_voices_def get_default_voice_def
      get_windows_voices_def item_def Let_def)

text \<open>
  Claim C9 does not hold of the code. \<open>scan_for_applications\<close> reads the global
  \<open>time\<close>, which \<open>platform_utils.py\<close> never imports: for every depth and every time
  budget, zero included, the call raises \<open>NameError\<close> before it visits a location,
  returns no index and leaves the cache as it was.
\<close>

theorem scan_raises_name_error:
  "scan_for_applications e st max_depth timeout = (Inl NameError, st)"
  by (simp add: scan_for_applications_def global_name_def platform_utils_globals_def)

end
